theory Spec2Isabelle
  imports Complex_Main
begin

section \<open>Python values used by the price monitor\<close>

text \<open>
  A Python \<open>str\<close> is modelled as a \<open>string\<close>; each \<open>char\<close> stands for the code point
  of the same number (code points 0 to 255).  An exception is a value of \<open>pyexn\<close>, and a
  computation that may raise returns \<open>pyexn + 'a\<close> with \<open>Inl\<close> for the raised exception.
\<close>

datatype pyexn =
    ValueError
  | IndexError
  | KeyError
  | TypeError
  | AttributeError
  | FileNotFoundError
  | JSONDecodeError
  | UnicodeDecodeError
  | OverflowError
  | OSError
  | PlaywrightTimeout
  | PlainException

definition exn_bind :: "pyexn + 'a \<Rightarrow> ('a \<Rightarrow> pyexn + 'b) \<Rightarrow> pyexn + 'b" where
  "exn_bind m k = (case m of Inl e \<Rightarrow> Inl e | Inr x \<Rightarrow> k x)"

text \<open>
  The builtins of Python that the program calls on floats, integers and letter case are
  taken as a parameter: \<open>float_of s\<close> is \<open>float(s)\<close> with \<open>None\<close> for the \<open>ValueError\<close>
  it raises on a string that is no number, \<open>int_of\<close> is \<open>int(s)\<close> likewise,
  \<open>float_zero\<close> is the literal \<open>0.0\<close>, \<open>float_eq\<close> and \<open>float_gt\<close> are \<open>==\<close> and \<open>>\<close>
  on floats, \<open>float_str x\<close> is the text an f-string gives for the float \<open>x\<close>,
  \<open>str_upper\<close> is \<open>str.upper\<close>, and \<open>time_sleep n\<close> is \<open>time.sleep(n)\<close> for an integer
  \<open>n\<close>: \<open>None\<close> when the call returns, the exception when it raises (\<open>ValueError\<close> for
  a negative length, \<open>OverflowError\<close> for one too large for the clock).
\<close>

record 'f pylib =
  float_of :: "string \<Rightarrow> 'f option"
  int_of :: "string \<Rightarrow> int option"
  float_zero :: 'f
  float_eq :: "'f \<Rightarrow> 'f \<Rightarrow> bool"
  float_gt :: "'f \<Rightarrow> 'f \<Rightarrow> bool"
  float_str :: "'f \<Rightarrow> string"
  str_upper :: "string \<Rightarrow> string"
  time_sleep :: "int \<Rightarrow> pyexn option"

subsection \<open>String methods\<close>

text \<open>The code points below 256 for which \<open>str.isspace\<close> holds.\<close>

definition is_space :: "char \<Rightarrow> bool" where
  "is_space c \<longleftrightarrow>
     (of_char c :: nat) \<in> set [9, 10, 11, 12, 13, 28, 29, 30, 31, 32, 133, 160]"

text \<open>
  \<open>s.split()\<close>: the maximal runs of non-whitespace characters of \<open>s\<close>, in order.
  \<open>split_acc cur s\<close> scans \<open>s\<close> with the token being read kept reversed in \<open>cur\<close>.
\<close>

fun split_acc :: "string \<Rightarrow> string \<Rightarrow> string list" where
  "split_acc cur [] = (if cur = [] then [] else [rev cur])"
| "split_acc cur (c # cs) =
     (if is_space c
      then (if cur = [] then split_acc [] cs else rev cur # split_acc [] cs)
      else split_acc (c # cur) cs)"

definition str_split :: "string \<Rightarrow> string list" where
  "str_split s = split_acc [] s"

text \<open>\<open>s.strip()\<close>: whitespace removed at both ends.\<close>

definition str_strip :: "string \<Rightarrow> string" where
  "str_strip s = rev (dropWhile is_space (rev (dropWhile is_space s)))"

text \<open>\<open>sep.join(xs)\<close>.\<close>

fun str_join :: "string \<Rightarrow> string list \<Rightarrow> string" where
  "str_join sep [] = []"
| "str_join sep [x] = x"
| "str_join sep (x # y # ys) = x @ sep @ str_join sep (y # ys)"

text \<open>\<open>s.replace(a, b)\<close> for single characters \<open>a\<close> and \<open>b\<close>.\<close>

definition str_replace :: "char \<Rightarrow> char \<Rightarrow> string \<Rightarrow> string" where
  "str_replace a b s = map (\<lambda>c. if c = a then b else c) s"

text \<open>\<open>xs[i]\<close> for a list and a non-negative index: \<open>IndexError\<close> out of range.\<close>

definition list_index :: "'a list \<Rightarrow> nat \<Rightarrow> pyexn + 'a" where
  "list_index xs i = (if i < length xs then Inr (xs ! i) else Inl IndexError)"

section \<open>Price source (opensea.py)\<close>

type_synonym 'f price = "'f \<times> string"

text \<open>
  \<open>OpenSeaService._parse_price_string\<close>.  \<open>parse_price_body\<close> is the body of the
  \<open>try\<close> block, \<open>parse_price_string\<close> adds the handler for \<open>ValueError\<close> and
  \<open>IndexError\<close>.
\<close>

definition parse_price_body :: "'f pylib \<Rightarrow> string \<Rightarrow> pyexn + 'f price" where
  "parse_price_body L price_string =
     (if price_string = ''N/A'' then Inr (float_zero L, ''UNKNOWN'')
      else
        let parts = str_split price_string in
        if length parts \<noteq> 2 then Inr (float_zero L, ''UNKNOWN'')
        else
          exn_bind (list_index parts 0) (\<lambda>p0.
          let price_str = str_replace (CHR '','') (CHR ''.'') p0 in
          exn_bind (case float_of L price_str of None \<Rightarrow> Inl ValueError | Some x \<Rightarrow> Inr x) (\<lambda>price.
          exn_bind (list_index parts 1) (\<lambda>p1.
          Inr (price, p1)))))"

definition parse_price_string :: "'f pylib \<Rightarrow> string \<Rightarrow> pyexn + 'f price" where
  "parse_price_string L price_string =
     (case parse_price_body L price_string of
        Inr r \<Rightarrow> Inr r
      | Inl e \<Rightarrow>
          if e = ValueError \<or> e = IndexError then Inr (float_zero L, ''UNKNOWN'')
          else Inl e)"

text \<open>\<open>OpenSeaService._config\<close>; the timeout and the delay between retries only set waits.\<close>

definition max_retries :: nat where
  "max_retries = 5"

text \<open>
  The headless browser is outside the program.  What it does during one attempt is a
  \<open>page\<close>: whether the launch, the navigation with its wait for the loaded document,
  and the wait for each of the two elements succeed, and what \<open>inner_text\<close> gives for
  each element (\<open>None\<close> when the element is not visible or the locator raises).
\<close>

record page =
  launched :: bool
  navigated :: bool
  floor_appears :: bool
  offer_appears :: bool
  floor_text :: "string option"
  offer_text :: "string option"

text \<open>\<open>OpenSeaService._get_element_text\<close>, on what the locator gives.\<close>

definition get_element_text :: "string option \<Rightarrow> string" where
  "get_element_text inner =
     (case inner of
        Some text \<Rightarrow> str_join '' '' (str_split text)
      | None \<Rightarrow> ''N/A'')"

text \<open>
  \<open>OpenSeaService._scrape_price_data_with_timeout\<close>.  The selectors are waited for in
  the order of the dictionary, floor price first; every exception is logged and raised
  again.
\<close>

definition scrape_price_data_with_timeout :: "page \<Rightarrow> pyexn + (string \<times> string) option" where
  "scrape_price_data_with_timeout pg =
     (if \<not> navigated pg then Inl PlaywrightTimeout
      else if \<not> floor_appears pg then Inl PlaywrightTimeout
      else if \<not> offer_appears pg then Inl PlaywrightTimeout
      else
        let floor_price = str_strip (get_element_text (floor_text pg));
            best_offer = str_strip (get_element_text (offer_text pg)) in
        if floor_price = ''N/A'' \<or> best_offer = ''N/A'' then Inl PlainException
        else Inr (Some (floor_price, best_offer)))"

text \<open>
  \<open>OpenSeaService._try_get_prices\<close>: one attempt.  The result is the pair of the
  parsed floor price and the parsed best offer (the dictionary with the keys
  \<open>floor_price\<close> and \<open>best_offer\<close>).
\<close>

definition try_get_prices :: "'f pylib \<Rightarrow> page \<Rightarrow> pyexn + ('f price \<times> 'f price) option" where
  "try_get_prices L pg =
     (if \<not> launched pg then Inl PlainException
      else
        exn_bind (scrape_price_data_with_timeout pg) (\<lambda>raw_data.
        case raw_data of
          None \<Rightarrow> Inr None
        | Some (raw_floor, raw_offer) \<Rightarrow>
            exn_bind (parse_price_string L raw_floor) (\<lambda>fp.
            exn_bind (parse_price_string L raw_offer) (\<lambda>bo.
            Inr (Some (fp, bo))))))"

text \<open>
  \<open>OpenSeaService.get_collection_prices\<close>: the loop over \<open>range(max_retries)\<close>, with
  \<open>pages attempt\<close> what the browser does in that attempt.  Log lines and the waits
  between attempts are left out; \<open>continue\<close> and the end of the handler both go on
  with the remaining attempts, and the end of the loop returns \<open>None\<close>.
\<close>

fun retry_loop :: "'f pylib \<Rightarrow> (nat \<Rightarrow> page) \<Rightarrow> nat list \<Rightarrow> ('f price \<times> 'f price) option" where
  "retry_loop L pages [] = None"
| "retry_loop L pages (attempt # rest) =
     (case try_get_prices L (pages attempt) of
        Inl e \<Rightarrow> retry_loop L pages rest
      | Inr None \<Rightarrow> retry_loop L pages rest
      | Inr (Some result) \<Rightarrow>
          (case result of ((floor_price, floor_currency), (best_offer, best_currency)) \<Rightarrow>
             if ''UNKNOWN'' \<in> set [floor_currency, best_currency] then retry_loop L pages rest
             else if float_eq L floor_price (float_zero L) \<or> float_eq L best_offer (float_zero L)
             then retry_loop L pages rest
             else Some result))"

definition get_collection_prices :: "'f pylib \<Rightarrow> (nat \<Rightarrow> page) \<Rightarrow> ('f price \<times> 'f price) option" where
  "get_collection_prices L pages = retry_loop L pages [0 ..< max_retries]"

text \<open>A price is degenerate when its currency is \<open>UNKNOWN\<close> or its magnitude equals \<open>0.0\<close>.\<close>

definition degenerate :: "'f pylib \<Rightarrow> 'f price \<Rightarrow> bool" where
  "degenerate L p \<longleftrightarrow> snd p = ''UNKNOWN'' \<or> float_eq L (fst p) (float_zero L)"

text \<open>An attempt fails when it raises, gives nothing, or gives a degenerate price.\<close>

definition attempt_fails :: "'f pylib \<Rightarrow> page \<Rightarrow> bool" where
  "attempt_fails L pg =
     (case try_get_prices L pg of
        Inl e \<Rightarrow> True
      | Inr None \<Rightarrow> True
      | Inr (Some r) \<Rightarrow> degenerate L (fst r) \<or> degenerate L (snd r))"

section \<open>Snapshots and decoded JSON\<close>

text \<open>
  What \<open>json.load\<close> returns: \<open>None\<close>, a boolean, a number, a string, a list, or a
  dictionary (its items in order, the keys distinct).  The last known prices are such a
  value, since they are read from the state file as they are.
\<close>

datatype json =
    JNull
  | JBool bool
  | JNum rat
  | JStr string
  | JArr "json list"
  | JObj "(string \<times> json) list"

text \<open>The truth value of a decoded value, as \<open>not\<close> and \<open>if\<close> take it.\<close>

fun truthy :: "json \<Rightarrow> bool" where
  "truthy JNull = False"
| "truthy (JBool b) = b"
| "truthy (JNum n) = (n \<noteq> 0)"
| "truthy (JStr s) = (s \<noteq> [])"
| "truthy (JArr xs) = (xs \<noteq> [])"
| "truthy (JObj kvs) = (kvs \<noteq> [])"

text \<open>
  \<open>v[key]\<close> for a string \<open>key\<close>: the value under the key of a dictionary, \<open>KeyError\<close>
  when the key is missing, \<open>TypeError\<close> when \<open>v\<close> is no dictionary.
\<close>

fun getitem :: "json \<Rightarrow> string \<Rightarrow> pyexn + json" where
  "getitem (JObj kvs) key = (case map_of kvs key of None \<Rightarrow> Inl KeyError | Some v \<Rightarrow> Inr v)"
| "getitem v key = Inl TypeError"

section \<open>Notifier (telegram.py)\<close>

text \<open>The variables of the process environment that the program reads, after \<open>load_dotenv\<close>.\<close>

record environ =
  OPENSEA_COLLECTION_SLUG :: "string option"
  CHECK_INTERVAL :: "string option"
  TELEGRAM_BOT_TOKEN :: "string option"
  TELEGRAM_CHANNEL_ID :: "string option"

text \<open>
  \<open>TelegramService.__init__\<close>: the credentials, or \<open>ValueError\<close> when one of them is
  \<open>None\<close> or empty.  The construction of the bot itself is outside the program.
\<close>

definition telegram_service_init :: "environ \<Rightarrow> pyexn + (string \<times> string)" where
  "telegram_service_init env =
     (case TELEGRAM_BOT_TOKEN env of
        None \<Rightarrow> Inl ValueError
      | Some bot_token \<Rightarrow>
          if bot_token = [] then Inl ValueError
          else
            (case TELEGRAM_CHANNEL_ID env of
               None \<Rightarrow> Inl ValueError
             | Some channel_id \<Rightarrow>
                 if channel_id = [] then Inl ValueError
                 else Inr (bot_token, channel_id)))"

text \<open>
  \<open>TelegramService.send_message\<close>.  The chat transport is outside the program:
  \<open>delivers\<close> tells whether \<open>bot.send_message\<close> returns rather than raises, and the
  outbox lists the texts handed to it.
\<close>

definition send_message :: "bool \<Rightarrow> string \<Rightarrow> string list \<Rightarrow> bool \<times> string list" where
  "send_message delivers text outbox = (delivers, outbox @ [text])"

definition bold :: "string \<Rightarrow> string" where
  "bold s = ''<b>'' @ s @ ''</b>''"

text \<open>\<open>float(s.split()[0])\<close>.\<close>

definition leading_float :: "'f pylib \<Rightarrow> string \<Rightarrow> pyexn + 'f" where
  "leading_float L s =
     exn_bind (list_index (str_split s) 0) (\<lambda>tok.
     case float_of L tok of None \<Rightarrow> Inl ValueError | Some x \<Rightarrow> Inr x)"

text \<open>
  \<open>format_change\<close>, the function inside \<open>TelegramService.send_price_update\<close>.  The old
  price is a decoded value; one that is no string has no \<open>split\<close>.
\<close>

definition format_change :: "'f pylib \<Rightarrow> string \<Rightarrow> json \<Rightarrow> pyexn + string" where
  "format_change L new_price old_price =
     (if \<not> truthy old_price \<or> JStr new_price = old_price then Inr (bold new_price)
      else
        exn_bind (leading_float L new_price) (\<lambda>new_val.
        exn_bind (case old_price of JStr old \<Rightarrow> leading_float L old | _ \<Rightarrow> Inl AttributeError) (\<lambda>old_val.
        if float_gt L new_val old_val then Inr (bold new_price @ '' +'')
        else Inr (bold new_price @ '' -''))))"

text \<open>\<open>TelegramService.send_price_update\<close>; \<open>old_prices\<close> is \<open>JNull\<close> for \<open>None\<close>.\<close>

definition service_send_price_update ::
  "'f pylib \<Rightarrow> bool \<Rightarrow> string \<Rightarrow> string \<Rightarrow> string \<Rightarrow> json \<Rightarrow> string list \<Rightarrow> pyexn + (bool \<times> string list)" where
  "service_send_price_update L delivers collection floor_price best_offer old_prices outbox =
     exn_bind
       (if truthy old_prices
        then exn_bind (getitem old_prices ''floor_price'') (format_change L floor_price)
        else Inr (bold floor_price)) (\<lambda>floor_display.
     exn_bind
       (if truthy old_prices
        then exn_bind (getitem old_prices ''best_offer'') (format_change L best_offer)
        else Inr (bold best_offer)) (\<lambda>best_offer_display.
     let message =
           bold (str_upper L collection) @ '' Update'' @ [CHR 0x0A, CHR 0x0A] @
           ''Floor Price: '' @ floor_display @ [CHR 0x0A] @
           ''Best Offer: '' @ best_offer_display in
     Inr (send_message delivers message outbox)))"

text \<open>
  The module's \<open>send_price_update\<close> with \<open>_send_price_update_async\<close>: a service is
  constructed for the call, from the environment.
\<close>

definition send_price_update ::
  "'f pylib \<Rightarrow> environ \<Rightarrow> bool \<Rightarrow> string \<Rightarrow> string \<Rightarrow> string \<Rightarrow> json \<Rightarrow> string list \<Rightarrow> pyexn + (bool \<times> string list)" where
  "send_price_update L env delivers collection floor_price best_offer old_prices outbox =
     exn_bind (telegram_service_init env) (\<lambda>service.
     service_send_price_update L delivers collection floor_price best_offer old_prices outbox)"

section \<open>State store and monitor loop (main.py)\<close>

text \<open>
  The dictionary of the two display strings that \<open>check_prices\<close> builds, and the
  value it is once stored or kept as the last known prices.
\<close>

record snapshot =
  floor_price :: string
  best_offer :: string

definition as_json :: "snapshot \<Rightarrow> json" where
  "as_json prices =
     JObj [(''floor_price'', JStr (floor_price prices)), (''best_offer'', JStr (best_offer prices))]"

text \<open>
  The state file as \<open>open\<close> and \<open>json.load\<close> find it: missing (\<open>FileNotFoundError\<close>),
  present but not to be opened or read (any other \<open>OSError\<close>), holding bytes that are
  no text in the encoding of the locale (\<open>UnicodeDecodeError\<close>), holding text that is
  no JSON (\<open>JSONDecodeError\<close>), or holding the JSON text of a value.
\<close>

datatype storage = Missing | Unreadable | Undecodable | NotJson | Stored json

definition json_load :: "storage \<Rightarrow> pyexn + json" where
  "json_load file =
     (case file of
        Missing \<Rightarrow> Inl FileNotFoundError
      | Unreadable \<Rightarrow> Inl OSError
      | Undecodable \<Rightarrow> Inl UnicodeDecodeError
      | NotJson \<Rightarrow> Inl JSONDecodeError
      | Stored v \<Rightarrow> Inr v)"

text \<open>\<open>PriceMonitor._load_memory\<close>.\<close>

definition load_memory :: "storage \<Rightarrow> pyexn + json" where
  "load_memory file =
     (case json_load file of
        Inr v \<Rightarrow> Inr v
      | Inl e \<Rightarrow>
          if e = FileNotFoundError \<or> e = JSONDecodeError
          then Inr (as_json \<lparr>floor_price = ''0 ETH'', best_offer = ''0 ETH''\<rparr>)
          else Inl e)"

text \<open>
  \<open>PriceMonitor._save_memory\<close>: the file is rewritten with the JSON text of the prices.
  \<open>writable\<close> tells whether opening the file for writing succeeds; when it does not,
  \<open>OSError\<close> is raised and the file is as before.
\<close>

definition save_memory :: "bool \<Rightarrow> snapshot \<Rightarrow> storage \<Rightarrow> pyexn + storage" where
  "save_memory writable prices file =
     (if writable then Inr (Stored (as_json prices)) else Inl OSError)"

text \<open>\<open>PriceMonitor._format_price\<close>.\<close>

definition format_price :: "'f pylib \<Rightarrow> 'f price \<Rightarrow> string" where
  "format_price L price_tuple =
     (case price_tuple of (price, currency) \<Rightarrow> float_str L price @ '' '' @ currency)"

text \<open>
  The monitor: the fields of \<open>PriceMonitor\<close>, with the state file itself in place of its
  name, the environment of the process, the outbox of the chat transport, and the
  numbers of calls of \<open>get_collection_prices\<close> and of \<open>_save_memory\<close> so far.
\<close>

record monitor =
  collection_slug :: string
  check_interval :: int
  last_prices :: json
  memory_file :: storage
  process_env :: environ
  outbox :: "string list"
  fetches :: nat
  saves :: nat

text \<open>\<open>PriceMonitor._load_config\<close>: the slug and the interval.\<close>

definition load_config :: "'f pylib \<Rightarrow> environ \<Rightarrow> pyexn + (string \<times> int)" where
  "load_config L env =
     (let slug = (case OPENSEA_COLLECTION_SLUG env of None \<Rightarrow> ''hypio'' | Some s \<Rightarrow> s) in
      case CHECK_INTERVAL env of
        None \<Rightarrow> Inr (slug, 300)
      | Some s \<Rightarrow> (case int_of L s of None \<Rightarrow> Inl ValueError | Some n \<Rightarrow> Inr (slug, n)))"

text \<open>\<open>PriceMonitor.__init__\<close>, which is all that \<open>main\<close> runs before the loop.\<close>

definition startup :: "'f pylib \<Rightarrow> environ \<Rightarrow> storage \<Rightarrow> pyexn + monitor" where
  "startup L env file =
     exn_bind (load_config L env) (\<lambda>(slug, interval).
     exn_bind (load_memory file) (\<lambda>last_known.
     Inr \<lparr>collection_slug = slug, check_interval = interval, last_prices = last_known,
          memory_file = file, process_env = env, outbox = [], fetches = 0, saves = 0\<rparr>))"

text \<open>\<open>PriceMonitor._prices_changed\<close>; \<open>or\<close> evaluates its second operand only when needed.\<close>

definition prices_changed :: "json \<Rightarrow> snapshot \<Rightarrow> pyexn + bool" where
  "prices_changed last_known new_prices =
     exn_bind (getitem last_known ''floor_price'') (\<lambda>old_floor.
     if JStr (floor_price new_prices) \<noteq> old_floor then Inr True
     else
       exn_bind (getitem last_known ''best_offer'') (\<lambda>old_offer.
       Inr (JStr (best_offer new_prices) \<noteq> old_offer)))"

text \<open>
  \<open>PriceMonitor.check_prices\<close>.  \<open>get_collection_prices\<close> raises nothing, so the
  handler of \<open>check_prices\<close> has nothing to catch.
\<close>

definition check_prices :: "'f pylib \<Rightarrow> (nat \<Rightarrow> page) \<Rightarrow> snapshot option" where
  "check_prices L pages =
     (case get_collection_prices L pages of
        None \<Rightarrow> None
      | Some result \<Rightarrow>
          Some \<lparr>floor_price = float_str L (fst (fst result)) @ '' '' @ snd (fst result),
                best_offer = float_str L (fst (snd result)) @ '' '' @ snd (snd result)\<rparr>)"

text \<open>
  What the outside does during one cycle: the browser in each attempt of the fetch,
  the chat transport, and the file system when the state file is written.
\<close>

record cycle_io =
  pages :: "nat \<Rightarrow> page"
  delivers :: bool
  writable :: bool

text \<open>
  The \<open>try\<close> statement of one iteration of the loop of \<open>PriceMonitor.run\<close>: the
  monitor after it.  An exception raised in the body is caught by the handler of the
  iteration, which logs it; the state is then as the body left it.  Log lines are
  left out, and the two calls of \<open>time.sleep\<close> are in \<open>run_iteration\<close>.
\<close>

definition run_cycle :: "'f pylib \<Rightarrow> cycle_io \<Rightarrow> monitor \<Rightarrow> monitor" where
  "run_cycle L io m =
     (let m1 = m\<lparr>fetches := fetches m + 1\<rparr> in
      case check_prices L (pages io) of
        None \<Rightarrow> m1
      | Some current_prices \<Rightarrow>
          (case prices_changed (last_prices m1) current_prices of
             Inl e \<Rightarrow> m1
           | Inr False \<Rightarrow> m1
           | Inr True \<Rightarrow>
               (case send_price_update L (process_env m1) (delivers io) (collection_slug m1)
                       (floor_price current_prices) (best_offer current_prices)
                       (last_prices m1) (outbox m1) of
                  Inl e \<Rightarrow> m1
                | Inr (sent, outbox') \<Rightarrow>
                    let m2 = m1\<lparr>outbox := outbox'\<rparr> in
                    if sent then
                      (let m3 = m2\<lparr>saves := saves m2 + 1\<rparr> in
                       case save_memory (writable io) current_prices (memory_file m3) of
                         Inl e \<Rightarrow> m3
                       | Inr file' \<Rightarrow>
                           m3\<lparr>memory_file := file', last_prices := as_json current_prices\<rparr>)
                    else m2)))"

text \<open>
  One iteration of the loop with its sleeps: the exception that leaves the loop, if
  any, and the monitor after the iteration.  After a failed fetch the body sleeps
  and, when that sleep returns, takes \<open>continue\<close>; a sleep that raises there is caught
  by the handler like any other exception.  Every other path reaches the sleep at the
  end of the iteration, which is outside the \<open>try\<close>: an exception of it leaves the loop.
\<close>

definition run_iteration :: "'f pylib \<Rightarrow> cycle_io \<Rightarrow> monitor \<Rightarrow> pyexn option \<times> monitor" where
  "run_iteration L io m =
     (let m' = run_cycle L io m in
      if check_prices L (pages io) = None \<and> time_sleep L (check_interval m) = None
      then (None, m')
      else (time_sleep L (check_interval m'), m'))"

text \<open>
  \<open>PriceMonitor.run\<close> over the first cycles, one \<open>cycle_io\<close> for each: the exception
  that ended the loop within these cycles, if any, and the monitor reached.
\<close>

fun run :: "'f pylib \<Rightarrow> cycle_io list \<Rightarrow> monitor \<Rightarrow> pyexn option \<times> monitor" where
  "run L [] m = (None, m)"
| "run L (io # ios) m =
     (case run_iteration L io m of
        (Some e, m') \<Rightarrow> (Some e, m')
      | (None, m') \<Rightarrow> run L ios m')"

text \<open>
  \<open>main\<close>, over the first cycles: \<open>Inl\<close> when the construction of the monitor raises,
  else what \<open>run\<close> gives.
\<close>

definition main ::
  "'f pylib \<Rightarrow> environ \<Rightarrow> storage \<Rightarrow> cycle_io list \<Rightarrow> pyexn + (pyexn option \<times> monitor)" where
  "main L env file ios = exn_bind (startup L env file) (\<lambda>m. Inr (run L ios m))"

section \<open>A library instance for decimal literals\<close>

text \<open>
  To run the program on concrete inputs, the library parameter is instantiated at
  exact rationals: \<open>dec_float\<close> reads a plain decimal literal (an optional sign, digits,
  an optional point and digits) and refuses every other string, \<open>dec_int\<close> reads a signed
  run of digits, and \<open>dec_str\<close> writes a number with its fractional digits, at least one.
  On literals of a few digits this is what \<open>float\<close>, \<open>int\<close> and the f-string give.
  \<open>dec_sleep\<close> refuses a negative length and one whose nanoseconds do not fit in 64
  bits, as \<open>time.sleep\<close> does in CPython.
\<close>

definition is_digit :: "char \<Rightarrow> bool" where
  "is_digit c \<longleftrightarrow> 48 \<le> (of_char c :: nat) \<and> (of_char c :: nat) \<le> 57"

definition digits_val :: "string \<Rightarrow> nat" where
  "digits_val ds = foldl (\<lambda>n c. 10 * n + (of_char c - 48)) 0 ds"

definition split_sign :: "string \<Rightarrow> bool \<times> string" where
  "split_sign s =
     (case s of
        [] \<Rightarrow> (False, s)
      | c # r \<Rightarrow> if c = CHR ''-'' then (True, r) else if c = CHR ''+'' then (False, r) else (False, s))"

definition dec_float :: "string \<Rightarrow> rat option" where
  "dec_float s =
     (case split_sign s of (neg, body) \<Rightarrow>
        let ip = takeWhile is_digit body;
            rest = dropWhile is_digit body;
            sgn = (if neg then (- 1 :: rat) else 1) in
        (case rest of
           [] \<Rightarrow> if ip = [] then None else Some (sgn * of_nat (digits_val ip))
         | c # fp \<Rightarrow>
             if c = CHR ''.'' \<and> list_all is_digit fp \<and> (ip \<noteq> [] \<or> fp \<noteq> [])
             then Some (sgn * of_nat (digits_val (ip @ fp)) / 10 ^ length fp)
             else None))"

definition dec_int :: "string \<Rightarrow> int option" where
  "dec_int s =
     (case split_sign s of (neg, body) \<Rightarrow>
        if body \<noteq> [] \<and> list_all is_digit body
        then Some ((if neg then - 1 else 1) * int (digits_val body))
        else None)"

definition digit_char :: "nat \<Rightarrow> char" where
  "digit_char n = char_of (48 + n)"

function show_nat :: "nat \<Rightarrow> string" where
  "show_nat n = (if n < 10 then [digit_char n] else show_nat (n div 10) @ [digit_char (n mod 10)])"
  by pat_completeness auto
termination
  by (relation "measure id") auto

declare show_nat.simps [simp del]

fun frac_digits :: "nat \<Rightarrow> rat \<Rightarrow> string" where
  "frac_digits 0 r = []"
| "frac_digits (Suc k) r =
     (if r = 0 then []
      else let d = \<lfloor>r * 10\<rfloor> in digit_char (nat d) # frac_digits k (r * 10 - of_int d))"

definition dec_str :: "rat \<Rightarrow> string" where
  "dec_str q =
     (let a = \<bar>q\<bar>; whole = \<lfloor>a\<rfloor>; fr = a - of_int whole in
      (if q < 0 then ''-'' else []) @ show_nat (nat whole) @ ''.'' @
      (if fr = 0 then ''0'' else frac_digits 17 fr))"

definition ascii_upper :: "string \<Rightarrow> string" where
  "ascii_upper s =
     map (\<lambda>c. if 97 \<le> (of_char c :: nat) \<and> (of_char c :: nat) \<le> 122
              then char_of ((of_char c :: nat) - 32) else c) s"

definition dec_sleep :: "int \<Rightarrow> pyexn option" where
  "dec_sleep secs =
     (if secs < 0 then Some ValueError
      else if 2 ^ 63 \<le> secs * 10 ^ 9 then Some OverflowError
      else None)"

definition decimal_lib :: "rat pylib" where
  "decimal_lib =
     \<lparr>float_of = dec_float, int_of = dec_int, float_zero = 0,
      float_eq = (\<lambda>x y. x = y), float_gt = (\<lambda>x y. y < x),
      float_str = dec_str, str_upper = ascii_upper, time_sleep = dec_sleep\<rparr>"

section \<open>Predicates of the statements\<close>

text \<open>
  A string is malformed for the parser when it is the marker \<open>N/A\<close>, when it does not
  split into exactly two tokens, or when its first token, commas replaced by periods,
  is no number for \<open>float\<close>.
\<close>

definition malformed :: "'f pylib \<Rightarrow> string \<Rightarrow> bool" where
  "malformed L s \<longleftrightarrow>
     s = ''N/A'' \<or>
     (case str_split s of
        [n, c] \<Rightarrow> float_of L (str_replace (CHR '','') (CHR ''.'') n) = None
      | _ \<Rightarrow> True)"

text \<open>A credential is missing when the variable is unset or empty.\<close>

definition credentials_missing :: "environ \<Rightarrow> bool" where
  "credentials_missing env \<longleftrightarrow>
     TELEGRAM_BOT_TOKEN env = None \<or> TELEGRAM_BOT_TOKEN env = Some [] \<or>
     TELEGRAM_CHANNEL_ID env = None \<or> TELEGRAM_CHANNEL_ID env = Some []"

text \<open>
  A decoded value is a snapshot when it is a dictionary of exactly the two keys
  \<open>floor_price\<close> and \<open>best_offer\<close>, each with a string.
\<close>

fun is_snapshot :: "json \<Rightarrow> bool" where
  "is_snapshot (JObj [(k1, JStr a), (k2, JStr b)]) =
     (k1 = ''floor_price'' \<and> k2 = ''best_offer'' \<or> k1 = ''best_offer'' \<and> k2 = ''floor_price'')"
| "is_snapshot v = False"

section \<open>Inputs used to run the program\<close>

text \<open>A page on which both elements show the given texts.\<close>

definition shows_texts :: "string \<Rightarrow> string \<Rightarrow> page" where
  "shows_texts f b =
     \<lparr>launched = True, navigated = True, floor_appears = True, offer_appears = True,
      floor_text = Some f, offer_text = Some b\<rparr>"

text \<open>A browser that shows a zero floor price in five attempts and the prices from the sixth on.\<close>

definition sixth_time :: "nat \<Rightarrow> page" where
  "sixth_time attempt =
     (if attempt < 5 then shows_texts ''0 ETH'' ''0.41 WETH'' else shows_texts ''0.44 ETH'' ''0.41 WETH'')"

text \<open>A browser that shows placeholders in two attempts and the prices from the third on.\<close>

definition third_time :: "nat \<Rightarrow> page" where
  "third_time attempt =
     (if attempt < 2 then shows_texts ''-- ETH'' ''0 WETH'' else shows_texts ''0.44 ETH'' ''0.41 WETH'')"

text \<open>Environments with and without the two credentials, everything else at its default.\<close>

definition with_credentials :: environ where
  "with_credentials =
     \<lparr>OPENSEA_COLLECTION_SLUG = None, CHECK_INTERVAL = None,
      TELEGRAM_BOT_TOKEN = Some ''123:abc'', TELEGRAM_CHANNEL_ID = Some ''@prices''\<rparr>"

definition no_credentials :: environ where
  "no_credentials =
     \<lparr>OPENSEA_COLLECTION_SLUG = None, CHECK_INTERVAL = None,
      TELEGRAM_BOT_TOKEN = None, TELEGRAM_CHANNEL_ID = None\<rparr>"

text \<open>No credentials, and an interval between cycles of minus five seconds.\<close>

definition negative_interval :: environ where
  "negative_interval =
     \<lparr>OPENSEA_COLLECTION_SLUG = None, CHECK_INTERVAL = Some ''-5'',
      TELEGRAM_BOT_TOKEN = None, TELEGRAM_CHANNEL_ID = None\<rparr>"

text \<open>
  A cycle in which the browser behaves as \<open>third_time\<close>; \<open>d\<close> tells whether the chat
  transport delivers and \<open>w\<close> whether the state file can be written.
\<close>

definition cycle_with :: "bool \<Rightarrow> bool \<Rightarrow> cycle_io" where
  "cycle_with d w = \<lparr>pages = third_time, delivers = d, writable = w\<rparr>"

text \<open>A monitor of the default collection that has run no cycle yet.\<close>

definition monitor_at :: "environ \<Rightarrow> storage \<Rightarrow> json \<Rightarrow> monitor" where
  "monitor_at env file known =
     \<lparr>collection_slug = ''hypio'', check_interval = 300, last_prices = known,
      memory_file = file, process_env = env, outbox = [], fetches = 0, saves = 0\<rparr>"

definition zero_prices :: snapshot where
  "zero_prices = \<lparr>floor_price = ''0 ETH'', best_offer = ''0 ETH''\<rparr>"

definition new_prices :: snapshot where
  "new_prices = \<lparr>floor_price = ''0.44 ETH'', best_offer = ''0.41 WETH''\<rparr>"

text \<open>A state file of valid JSON whose floor price has no number in front.\<close>

definition odd_state :: json where
  "odd_state = JObj [(''floor_price'', JStr ''abc ETH''), (''best_offer'', JStr ''0.41 WETH'')]"

text \<open>The message for \<open>new_prices\<close> after \<open>zero_prices\<close>.\<close>

definition update_text :: string where
  "update_text =
     ''<b>HYPIO</b> Update'' @ [CHR 0x0A, CHR 0x0A] @
     ''Floor Price: <b>0.44 ETH</b> +'' @ [CHR 0x0A] @
     ''Best Offer: <b>0.41 WETH</b> +''"

section \<open>The price parser\<close>

lemma parse_price_body_two_tokens:
  assumes "s \<noteq> ''N/A''" and "str_split s = [n, c]"
  shows "parse_price_body L s =
           (case float_of L (str_replace (CHR '','') (CHR ''.'') n) of
              None \<Rightarrow> Inl ValueError
            | Some x \<Rightarrow> Inr (x, c))"
  using assms
  by (simp add: parse_price_body_def list_index_def exn_bind_def split: option.splits)

lemma parse_price_body_other:
  assumes "s = ''N/A'' \<or> length (str_split s) \<noteq> 2"
  shows "parse_price_body L s = Inr (float_zero L, ''UNKNOWN'')"
  using assms by (auto simp add: parse_price_body_def Let_def)

lemma length_two_cases:
  "length xs = 2 \<longleftrightarrow> (\<exists>a b. xs = [a, b])"
  by (cases xs; cases "tl xs"; cases "tl (tl xs)") auto

text \<open>
  C8.  The price parser is total: for every library and every input string it returns
  a price and raises nothing, and on a malformed string (the marker \<open>N/A\<close>, a number of
  tokens other than two, or a first token that is no number once its commas are
  periods) the price it returns is \<open>(0.0, UNKNOWN)\<close>.
\<close>

theorem parse_price_string_total:
  "(\<exists>p. parse_price_string L s = Inr p) \<and>
   (malformed L s \<longrightarrow> parse_price_string L s = Inr (float_zero L, ''UNKNOWN''))"
proof (cases "s = ''N/A'' \<or> length (str_split s) \<noteq> 2")
  case True
  then have body: "parse_price_body L s = Inr (float_zero L, ''UNKNOWN'')"
    by (rule parse_price_body_other)
  then show ?thesis by (simp add: parse_price_string_def)
next
  case False
  then obtain n c where toks: "str_split s = [n, c]" and na: "s \<noteq> ''N/A''"
    by (auto simp add: length_two_cases)
  show ?thesis
  proof (cases "float_of L (str_replace (CHR '','') (CHR ''.'') n)")
    case None
    with toks na have "parse_price_body L s = Inl ValueError"
      by (simp add: parse_price_body_two_tokens)
    then show ?thesis by (simp add: parse_price_string_def)
  next
    case (Some x)
    with toks na have "parse_price_body L s = Inr (x, c)"
      by (simp add: parse_price_body_two_tokens)
    moreover from Some toks na have "\<not> malformed L s"
      by (simp add: malformed_def)
    ultimately show ?thesis by (simp add: parse_price_string_def)
  qed
qed

theorem parse_price_string_total_witness:
  "malformed decimal_lib ''1.2.3 ETH'' \<and>
   parse_price_string decimal_lib ''1.2.3 ETH'' = Inr (0, ''UNKNOWN'') \<and>
   malformed decimal_lib ''0.44'' \<and>
   parse_price_string decimal_lib ''0.44'' = Inr (0, ''UNKNOWN'') \<and>
   malformed decimal_lib ''N/A'' \<and>
   parse_price_string decimal_lib ''N/A'' = Inr (0, ''UNKNOWN'')"
proof -
  have z: "float_zero decimal_lib = 0" by (simp add: decimal_lib_def)
  have m1: "malformed decimal_lib ''1.2.3 ETH''" by code_simp
  have m2: "malformed decimal_lib ''0.44''" by code_simp
  from m1 parse_price_string_total [of decimal_lib "''1.2.3 ETH''"]
  have r1: "parse_price_string decimal_lib ''1.2.3 ETH'' = Inr (0, ''UNKNOWN'')"
    by (simp add: z)
  from m2 parse_price_string_total [of decimal_lib "''0.44''"]
  have r2: "parse_price_string decimal_lib ''0.44'' = Inr (0, ''UNKNOWN'')"
    by (simp add: z)
  have m3: "malformed decimal_lib ''N/A''" by (simp add: malformed_def)
  from m3 parse_price_string_total [of decimal_lib "''N/A''"]
  have r3: "parse_price_string decimal_lib ''N/A'' = Inr (0, ''UNKNOWN'')"
    by (simp add: z)
  from m1 m2 m3 r1 r2 r3 show ?thesis by simp
qed

section \<open>The retry loop\<close>

lemma retry_loop_all_fail:
  "(\<forall>a \<in> set as. attempt_fails L (pgs a)) \<Longrightarrow> retry_loop L pgs as = None"
  by (induction as)
     (auto simp add: attempt_fails_def degenerate_def split: sum.splits option.splits prod.splits)

lemma retry_loop_Some:
  "retry_loop L pgs as = Some r \<Longrightarrow> \<not> degenerate L (fst r) \<and> \<not> degenerate L (snd r)"
  by (induction as)
     (auto simp add: degenerate_def split: sum.splits option.splits prod.splits if_splits)

text \<open>
  C2.  When every one of the five attempts of \<open>get_collection_prices\<close> raises, gives
  nothing or gives a degenerate price (currency \<open>UNKNOWN\<close> or magnitude zero), the
  function returns \<open>None\<close>; and whenever it returns a result, neither of the two prices
  of the result is degenerate.
\<close>

theorem get_collection_prices_validated:
  "((\<forall>attempt < max_retries. attempt_fails L (pgs attempt)) \<longrightarrow>
      get_collection_prices L pgs = None) \<and>
   (\<forall>r. get_collection_prices L pgs = Some r \<longrightarrow>
      \<not> degenerate L (fst r) \<and> \<not> degenerate L (snd r))"
  unfolding get_collection_prices_def
  using retry_loop_all_fail [of "[0 ..< max_retries]" L pgs]
    retry_loop_Some [of L pgs "[0 ..< max_retries]"]
  by auto

theorem get_collection_prices_validated_witness:
  "attempt_fails decimal_lib (shows_texts ''0 ETH'' ''0.41 WETH'') \<and>
   get_collection_prices decimal_lib sixth_time = None \<and>
   get_collection_prices decimal_lib third_time = Some ((11 / 25, ''ETH''), (41 / 100, ''WETH'')) \<and>
   \<not> degenerate decimal_lib (11 / 25, ''ETH'') \<and> \<not> degenerate decimal_lib (41 / 100, ''WETH'')"
proof -
  have f: "attempt_fails decimal_lib (shows_texts ''0 ETH'' ''0.41 WETH'')" by code_simp
  then have h: "\<forall>attempt < max_retries. attempt_fails decimal_lib (sixth_time attempt)"
    by (simp add: sixth_time_def max_retries_def)
  have g: "get_collection_prices decimal_lib third_time = Some ((11 / 25, ''ETH''), (41 / 100, ''WETH''))"
    by code_simp
  from h get_collection_prices_validated [of decimal_lib sixth_time]
  have a: "get_collection_prices decimal_lib sixth_time = None" by blast
  from g get_collection_prices_validated [of decimal_lib third_time]
  have b: "\<not> degenerate decimal_lib (11 / 25, ''ETH'') \<and> \<not> degenerate decimal_lib (41 / 100, ''WETH'')"
    by simp
  from f a g b show ?thesis by blast
qed

section \<open>Round trip of parsing and formatting\<close>

lemma split_acc_token:
  "\<forall>ch \<in> set t. \<not> is_space ch \<Longrightarrow> split_acc cur (t @ rest) = split_acc (rev t @ cur) rest"
  by (induction t arbitrary: cur) simp_all

lemma split_acc_tokens_clean:
  "t \<in> set (split_acc cur s) \<Longrightarrow> \<forall>ch \<in> set cur. \<not> is_space ch \<Longrightarrow>
   t \<noteq> [] \<and> (\<forall>ch \<in> set t. \<not> is_space ch)"
proof (induction s arbitrary: cur)
  case Nil
  then show ?case by (cases "cur = []") auto
next
  case (Cons a s)
  show ?case
  proof (cases "is_space a")
    case False
    with Cons.prems have "t \<in> set (split_acc (a # cur) s)"
      and "\<forall>ch \<in> set (a # cur). \<not> is_space ch" by simp_all
    then show ?thesis by (rule Cons.IH)
  next
    case True
    have empty: "\<forall>ch \<in> set ([] :: string). \<not> is_space ch" by simp
    show ?thesis
    proof (cases "cur = []")
      case True
      with \<open>is_space a\<close> Cons.prems have "t \<in> set (split_acc [] s)" by simp
      then show ?thesis using empty by (rule Cons.IH)
    next
      case False
      with \<open>is_space a\<close> Cons.prems have "t = rev cur \<or> t \<in> set (split_acc [] s)" by simp
      then show ?thesis
      proof
        assume "t = rev cur"
        with False Cons.prems(2) show ?thesis by simp
      next
        assume "t \<in> set (split_acc [] s)"
        then show ?thesis using empty by (rule Cons.IH)
      qed
    qed
  qed
qed

lemma str_split_tokens_clean:
  "t \<in> set (str_split s) \<Longrightarrow> t \<noteq> [] \<and> (\<forall>ch \<in> set t. \<not> is_space ch)"
  unfolding str_split_def using split_acc_tokens_clean [of t "[]" s] by simp

lemma is_space_blank: "is_space (CHR '' '')"
  by (simp add: is_space_def)

lemma str_split_two:
  assumes "a \<noteq> []" and "\<forall>ch \<in> set a. \<not> is_space ch"
    and "c \<noteq> []" and "\<forall>ch \<in> set c. \<not> is_space ch"
  shows "str_split (a @ '' '' @ c) = [a, c]"
proof -
  have "str_split (a @ '' '' @ c) = split_acc (rev a) ('' '' @ c)"
    unfolding str_split_def using split_acc_token [OF assms(2), of "[]" "'' '' @ c"] by simp
  also have "\<dots> = a # split_acc [] c"
    using assms(1) by (simp add: is_space_blank)
  also have "split_acc [] c = split_acc (rev c) []"
    using split_acc_token [OF assms(4), of "[]" "[]"] by simp
  also have "\<dots> = [c]" using assms(3) by simp
  finally show ?thesis .
qed

lemma str_replace_absent:
  "a \<notin> set s \<Longrightarrow> str_replace a b s = s"
  by (induction s) (auto simp add: str_replace_def)

lemma str_split_NA: "str_split ''N/A'' = [''N/A'']"
  by code_simp

text \<open>
  C9.  Let \<open>s\<close> be a display string of two tokens, a magnitude \<open>n\<close> that \<open>float\<close>
  reads as \<open>x\<close> once its commas are periods, and a currency \<open>c\<close>.  Parsing \<open>s\<close> gives
  the price \<open>(x, c)\<close>, formatting that price gives the text of \<open>x\<close>, a blank and \<open>c\<close>, and
  this display string carries the same magnitude and the same currency token: parsing
  it gives \<open>(x, c)\<close> again.  The library's part is taken as given for \<open>x\<close>: the text of
  a float is one token without a comma, and \<open>float\<close> reads it back as that float.
\<close>

theorem parse_format_round_trip:
  assumes "str_split s = [n, c]"
    and "float_of L (str_replace (CHR '','') (CHR ''.'') n) = Some x"
    and "float_str L x \<noteq> []"
    and "\<forall>ch \<in> set (float_str L x). \<not> is_space ch \<and> ch \<noteq> CHR '',''"
    and "float_of L (float_str L x) = Some x"
  shows "parse_price_string L s = Inr (x, c) \<and>
         format_price L (x, c) = float_str L x @ '' '' @ c \<and>
         parse_price_string L (format_price L (x, c)) = Inr (x, c)"
proof -
  have na: "s \<noteq> ''N/A''"
    using assms(1) str_split_NA by auto
  have first: "parse_price_string L s = Inr (x, c)"
    using parse_price_body_two_tokens [OF na assms(1), of L] assms(2)
    by (simp add: parse_price_string_def)
  have fmt: "format_price L (x, c) = float_str L x @ '' '' @ c"
    by (simp add: format_price_def)
  have c_clean: "c \<noteq> [] \<and> (\<forall>ch \<in> set c. \<not> is_space ch)"
    using str_split_tokens_clean [of c s] assms(1) by simp
  have toks: "str_split (float_str L x @ '' '' @ c) = [float_str L x, c]"
    using str_split_two [of "float_str L x" c] assms(3,4) c_clean by blast
  have na2: "float_str L x @ '' '' @ c \<noteq> ''N/A''"
    using toks str_split_NA by auto
  have same: "str_replace (CHR '','') (CHR ''.'') (float_str L x) = float_str L x"
    using assms(4) by (intro str_replace_absent) blast
  have again: "parse_price_string L (float_str L x @ '' '' @ c) = Inr (x, c)"
    using parse_price_body_two_tokens [OF na2 toks, of L] assms(5) same
    by (simp add: parse_price_string_def)
  from first fmt again show ?thesis by simp
qed

theorem parse_format_round_trip_witness:
  "parse_price_string decimal_lib ''0,44  ETH'' = Inr (11 / 25, ''ETH'') \<and>
   format_price decimal_lib (11 / 25, ''ETH'') = ''0.44 ETH'' \<and>
   parse_price_string decimal_lib ''0.44 ETH'' = Inr (11 / 25, ''ETH'')"
proof -
  have s: "str_split ''0,44  ETH'' = [''0,44'', ''ETH'']" by code_simp
  have f: "float_of decimal_lib (str_replace (CHR '','') (CHR ''.'') ''0,44'') = Some (11 / 25)"
    by code_simp
  have r: "float_str decimal_lib (11 / 25) = ''0.44''" by code_simp
  have t: "\<forall>ch \<in> set ''0.44''. \<not> is_space ch \<and> ch \<noteq> CHR '',''"
    by (simp add: is_space_def)
  have b: "float_of decimal_lib ''0.44'' = Some (11 / 25)" by code_simp
  have e: "float_str decimal_lib (11 / 25) \<noteq> []" by (simp add: r)
  have t': "\<forall>ch \<in> set (float_str decimal_lib (11 / 25)). \<not> is_space ch \<and> ch \<noteq> CHR '',''"
    unfolding r by (rule t)
  have b': "float_of decimal_lib (float_str decimal_lib (11 / 25)) = Some (11 / 25)"
    unfolding r by (rule b)
  have m: "format_price decimal_lib (11 / 25, ''ETH'') = ''0.44 ETH''"
    by (simp add: format_price_def r)
  from parse_format_round_trip [OF s f e t' b']
  show ?thesis unfolding m by simp
qed

text \<open>The display strings of \<open>check_prices\<close> are those of \<open>_format_price\<close>.\<close>

lemma check_prices_formats:
  "check_prices L pgs =
     map_option (\<lambda>r. \<lparr>floor_price = format_price L (fst r), best_offer = format_price L (snd r)\<rparr>)
       (get_collection_prices L pgs)"
  by (simp add: check_prices_def format_price_def split: option.splits prod.splits)

section \<open>The change indicator\<close>

text \<open>
  C3.  \<open>format_change\<close> renders the new display string bold with no indicator when
  the old one is absent (\<open>None\<close> or empty) or is the same text.  Otherwise, for
  display strings whose leading tokens are the numbers \<open>x\<close> (new) and \<open>y\<close> (old), it
  appends \<open>+\<close> when \<open>x > y\<close> and \<open>-\<close> in every other case, also when the two
  magnitudes are equal and only the texts differ.
\<close>

theorem format_change_indicator:
  "(\<not> truthy old \<or> old = JStr new \<longrightarrow> format_change L new old = Inr (bold new)) \<and>
   (old = JStr prev \<and> prev \<noteq> [] \<and> prev \<noteq> new \<and>
    leading_float L new = Inr x \<and> leading_float L prev = Inr y \<longrightarrow>
      format_change L new old = Inr (bold new @ (if float_gt L x y then '' +'' else '' -'')))"
  by (auto simp add: format_change_def exn_bind_def)

theorem format_change_indicator_witness:
  "format_change decimal_lib ''0.44 ETH'' JNull = Inr ''<b>0.44 ETH</b>'' \<and>
   format_change decimal_lib ''0.40 ETH'' (JStr ''0.40 ETH'') = Inr ''<b>0.40 ETH</b>'' \<and>
   format_change decimal_lib ''0.44 ETH'' (JStr ''0.40 ETH'') = Inr ''<b>0.44 ETH</b> +'' \<and>
   format_change decimal_lib ''0.30 ETH'' (JStr ''0.40 ETH'') = Inr ''<b>0.30 ETH</b> -'' \<and>
   format_change decimal_lib ''0.400 ETH'' (JStr ''0.40 ETH'') = Inr ''<b>0.400 ETH</b> -''"
proof -
  have gt: "float_gt decimal_lib = (\<lambda>x y. y < x)" by (simp add: decimal_lib_def)
  have l44: "leading_float decimal_lib ''0.44 ETH'' = Inr (11 / 25)" by code_simp
  have l40: "leading_float decimal_lib ''0.40 ETH'' = Inr (2 / 5)" by code_simp
  have l30: "leading_float decimal_lib ''0.30 ETH'' = Inr (3 / 10)" by code_simp
  have l400: "leading_float decimal_lib ''0.400 ETH'' = Inr (2 / 5)" by code_simp
  have a: "format_change decimal_lib ''0.44 ETH'' JNull = Inr ''<b>0.44 ETH</b>''"
    using format_change_indicator [of JNull "''0.44 ETH''" decimal_lib] by (simp add: bold_def)
  have b: "format_change decimal_lib ''0.40 ETH'' (JStr ''0.40 ETH'') = Inr ''<b>0.40 ETH</b>''"
    using format_change_indicator [of "JStr ''0.40 ETH''" "''0.40 ETH''" decimal_lib]
    by (simp add: bold_def)
  have c: "format_change decimal_lib ''0.44 ETH'' (JStr ''0.40 ETH'') = Inr ''<b>0.44 ETH</b> +''"
    using format_change_indicator [of "JStr ''0.40 ETH''" "''0.44 ETH''" decimal_lib
        "''0.40 ETH''" "11 / 25" "2 / 5"] l44 l40
    by (simp add: bold_def gt)
  have d: "format_change decimal_lib ''0.30 ETH'' (JStr ''0.40 ETH'') = Inr ''<b>0.30 ETH</b> -''"
    using format_change_indicator [of "JStr ''0.40 ETH''" "''0.30 ETH''" decimal_lib
        "''0.40 ETH''" "3 / 10" "2 / 5"] l30 l40
    by (simp add: bold_def gt)
  have e: "format_change decimal_lib ''0.400 ETH'' (JStr ''0.40 ETH'') = Inr ''<b>0.400 ETH</b> -''"
    using format_change_indicator [of "JStr ''0.40 ETH''" "''0.400 ETH''" decimal_lib
        "''0.40 ETH''" "2 / 5" "2 / 5"] l400 l40
    by (simp add: bold_def gt)
  from a b c d e show ?thesis by simp
qed

lemma leading_float_fails:
  assumes "str_split prev = tok # rest" and "float_of L tok = None"
  shows "leading_float L prev = Inl ValueError"
  using assms by (simp add: leading_float_def list_index_def exn_bind_def)

lemma leading_float_cases:
  "leading_float L s = Inl ValueError \<or> leading_float L s = Inl IndexError \<or>
   (\<exists>x. leading_float L s = Inr x)"
  by (auto simp add: leading_float_def list_index_def exn_bind_def split: option.splits)

text \<open>
  C10.  The formatting of the notifier is not total.  When the old floor price is a
  string that is not empty, differs from the new one and has a leading token that is
  no number, \<open>format_change\<close> raises \<open>ValueError\<close> or \<open>IndexError\<close>, and so does
  \<open>send_price_update\<close>: it raises instead of returning a boolean.
\<close>

theorem send_price_update_raises:
  assumes "getitem old_prices ''floor_price'' = Inr (JStr prev)"
    and "prev \<noteq> []" and "prev \<noteq> new"
    and "str_split prev = tok # rest" and "float_of L tok = None"
  shows "(format_change L new (JStr prev) = Inl ValueError \<or>
          format_change L new (JStr prev) = Inl IndexError) \<and>
         (send_price_update L env ok coll new offer old_prices ob = Inl ValueError \<or>
          send_price_update L env ok coll new offer old_prices ob = Inl IndexError)"
proof -
  have old: "leading_float L prev = Inl ValueError"
    using assms(4,5) by (rule leading_float_fails)
  have fc: "format_change L new (JStr prev) = Inl ValueError \<or>
            format_change L new (JStr prev) = Inl IndexError"
    using leading_float_cases [of L new] assms(2,3) old
    by (auto simp add: format_change_def exn_bind_def)
  have t: "truthy old_prices"
    using assms(1) by (cases old_prices) (auto split: option.splits)
  have "service_send_price_update L ok coll new offer old_prices ob = Inl ValueError \<or>
        service_send_price_update L ok coll new offer old_prices ob = Inl IndexError"
    using fc t assms(1) by (auto simp add: service_send_price_update_def exn_bind_def)
  then have "send_price_update L env ok coll new offer old_prices ob = Inl ValueError \<or>
        send_price_update L env ok coll new offer old_prices ob = Inl IndexError"
    by (auto simp add: send_price_update_def exn_bind_def telegram_service_init_def
          split: option.splits)
  with fc show ?thesis by simp
qed

theorem send_price_update_raises_witness:
  "load_memory (Stored odd_state) = Inr odd_state \<and>
   format_change decimal_lib ''0.44 ETH'' (JStr ''abc ETH'') = Inl ValueError \<and>
   send_price_update decimal_lib with_credentials True ''hypio'' ''0.44 ETH'' ''0.41 WETH''
     odd_state [] = Inl ValueError"
proof -
  have g: "getitem odd_state ''floor_price'' = Inr (JStr ''abc ETH'')" by code_simp
  have s: "str_split ''abc ETH'' = [''abc'', ''ETH'']" by code_simp
  have f: "float_of decimal_lib ''abc'' = None" by code_simp
  have n1: "format_change decimal_lib ''0.44 ETH'' (JStr ''abc ETH'') \<noteq> Inl IndexError"
    by code_simp
  have n2: "send_price_update decimal_lib with_credentials True ''hypio'' ''0.44 ETH'' ''0.41 WETH''
     odd_state [] \<noteq> Inl IndexError" by code_simp
  have l: "load_memory (Stored odd_state) = Inr odd_state"
    by (simp add: load_memory_def json_load_def)
  from send_price_update_raises [of odd_state "''abc ETH''" "''0.44 ETH''" "''abc''" "[''ETH'']"
      decimal_lib with_credentials True "''hypio''" "''0.41 WETH''" "[]", OF g _ _ s f] n1 n2 l
  show ?thesis by simp
qed

section \<open>The state store\<close>

text \<open>
  C7, as the code has it.  Loading returns the default snapshot when the state file is
  missing or holds text that is no JSON; when the file holds JSON it returns the
  decoded value as it is, snapshot or not; any other failure to open, read or decode
  the file is raised.
\<close>

theorem load_memory_cases:
  "load_memory Missing = Inr (as_json zero_prices) \<and>
   load_memory NotJson = Inr (as_json zero_prices) \<and>
   load_memory (Stored v) = Inr v \<and>
   load_memory Unreadable = Inl OSError \<and>
   load_memory Undecodable = Inl UnicodeDecodeError"
  by (simp add: load_memory_def json_load_def zero_prices_def)

text \<open>
  C7 as stated fails: a state file whose bytes are no text, or one that cannot be read,
  makes loading raise, and a state file with the JSON text \<open>[]\<close> makes it return a
  list, which is no snapshot.
\<close>

theorem load_memory_counterexample:
  "load_memory Undecodable = Inl UnicodeDecodeError \<and>
   load_memory Unreadable = Inl OSError \<and>
   load_memory (Stored (JArr [])) = Inr (JArr []) \<and> \<not> is_snapshot (JArr [])"
  by (simp add: load_memory_def json_load_def)

section \<open>One cycle of the monitor loop\<close>

lemma prices_changed_same:
  assumes "getitem known ''floor_price'' = Inr (JStr (floor_price cur))"
    and "getitem known ''best_offer'' = Inr (JStr (best_offer cur))"
  shows "prices_changed known cur = Inr False"
  using assms by (simp add: prices_changed_def exn_bind_def)

text \<open>
  C6.  In a cycle whose fetched snapshot has both fields textually equal to the fields
  of the last known prices, nothing is handed to the chat transport, the state file is
  not saved, and the last known prices stay: the monitor is as before, apart from
  the count of fetches.
\<close>

theorem unchanged_cycle_is_idle:
  assumes "check_prices L (pages io) = Some cur"
    and "getitem (last_prices m) ''floor_price'' = Inr (JStr (floor_price cur))"
    and "getitem (last_prices m) ''best_offer'' = Inr (JStr (best_offer cur))"
  shows "run_cycle L io m = m\<lparr>fetches := fetches m + 1\<rparr>"
  using assms(1) prices_changed_same [OF assms(2,3)]
  by (simp add: run_cycle_def Let_def)

theorem unchanged_cycle_is_idle_witness:
  "run_cycle decimal_lib (cycle_with True True)
     (monitor_at with_credentials (Stored (as_json new_prices)) (as_json new_prices)) =
   (monitor_at with_credentials (Stored (as_json new_prices)) (as_json new_prices))\<lparr>fetches := 1\<rparr>"
proof -
  have c: "check_prices decimal_lib (pages (cycle_with True True)) = Some new_prices"
    by code_simp
  have f: "getitem (last_prices (monitor_at with_credentials (Stored (as_json new_prices))
             (as_json new_prices))) ''floor_price'' = Inr (JStr (floor_price new_prices))"
    by code_simp
  have b: "getitem (last_prices (monitor_at with_credentials (Stored (as_json new_prices))
             (as_json new_prices))) ''best_offer'' = Inr (JStr (best_offer new_prices))"
    by code_simp
  from unchanged_cycle_is_idle [OF c f b] show ?thesis by (simp add: monitor_at_def)
qed

text \<open>
  C4.  In a cycle whose fetched snapshot differs from the last known prices and whose
  notification returns failure, the state file and the last known prices are left as
  they were, and the state file is not saved.
\<close>

theorem failed_notification_keeps_state:
  assumes "check_prices L (pages io) = Some cur"
    and "prices_changed (last_prices m) cur = Inr True"
    and "send_price_update L (process_env m) (delivers io) (collection_slug m)
           (floor_price cur) (best_offer cur) (last_prices m) (outbox m) = Inr (False, ob)"
  shows "memory_file (run_cycle L io m) = memory_file m \<and>
         last_prices (run_cycle L io m) = last_prices m \<and>
         saves (run_cycle L io m) = saves m"
  using assms by (simp add: run_cycle_def Let_def)

theorem failed_notification_keeps_state_witness:
  "memory_file (run_cycle decimal_lib (cycle_with False True)
      (monitor_at with_credentials (Stored (as_json zero_prices)) (as_json zero_prices))) =
     Stored (as_json zero_prices) \<and>
   last_prices (run_cycle decimal_lib (cycle_with False True)
      (monitor_at with_credentials (Stored (as_json zero_prices)) (as_json zero_prices))) =
     as_json zero_prices \<and>
   saves (run_cycle decimal_lib (cycle_with False True)
      (monitor_at with_credentials (Stored (as_json zero_prices)) (as_json zero_prices))) = 0"
proof -
  have c: "check_prices decimal_lib (pages (cycle_with False True)) = Some new_prices"
    by code_simp
  have d: "prices_changed (last_prices (monitor_at with_credentials
             (Stored (as_json zero_prices)) (as_json zero_prices))) new_prices = Inr True"
    by code_simp
  have n: "send_price_update decimal_lib
             (process_env (monitor_at with_credentials (Stored (as_json zero_prices)) (as_json zero_prices)))
             (delivers (cycle_with False True))
             (collection_slug (monitor_at with_credentials (Stored (as_json zero_prices)) (as_json zero_prices)))
             (floor_price new_prices) (best_offer new_prices)
             (last_prices (monitor_at with_credentials (Stored (as_json zero_prices)) (as_json zero_prices)))
             (outbox (monitor_at with_credentials (Stored (as_json zero_prices)) (as_json zero_prices)))
           = Inr (False, [update_text])"
    by code_simp
  from failed_notification_keeps_state [OF c d n] show ?thesis by (simp add: monitor_at_def)
qed

text \<open>
  C5, as the code has it.  In a cycle whose fetched snapshot differs from the last known
  prices, whose notification returns success and in which the state file can be
  written, the state file afterwards holds exactly the new snapshot and the last known
  prices are the new snapshot.
\<close>

theorem delivered_change_is_saved:
  assumes "check_prices L (pages io) = Some cur"
    and "prices_changed (last_prices m) cur = Inr True"
    and "send_price_update L (process_env m) (delivers io) (collection_slug m)
           (floor_price cur) (best_offer cur) (last_prices m) (outbox m) = Inr (True, ob)"
    and "writable io"
  shows "memory_file (run_cycle L io m) = Stored (as_json cur) \<and>
         last_prices (run_cycle L io m) = as_json cur"
  using assms by (simp add: run_cycle_def Let_def save_memory_def)

theorem delivered_change_is_saved_witness:
  "memory_file (run_cycle decimal_lib (cycle_with True True)
      (monitor_at with_credentials Missing (as_json zero_prices))) = Stored (as_json new_prices) \<and>
   last_prices (run_cycle decimal_lib (cycle_with True True)
      (monitor_at with_credentials Missing (as_json zero_prices))) = as_json new_prices"
proof -
  have c: "check_prices decimal_lib (pages (cycle_with True True)) = Some new_prices"
    by code_simp
  have d: "prices_changed (last_prices (monitor_at with_credentials Missing (as_json zero_prices)))
             new_prices = Inr True"
    by code_simp
  have n: "send_price_update decimal_lib
             (process_env (monitor_at with_credentials Missing (as_json zero_prices)))
             (delivers (cycle_with True True))
             (collection_slug (monitor_at with_credentials Missing (as_json zero_prices)))
             (floor_price new_prices) (best_offer new_prices)
             (last_prices (monitor_at with_credentials Missing (as_json zero_prices)))
             (outbox (monitor_at with_credentials Missing (as_json zero_prices)))
           = Inr (True, [update_text])"
    by code_simp
  have w: "writable (cycle_with True True)" by code_simp
  from delivered_change_is_saved [OF c d n w] show ?thesis .
qed

text \<open>
  C5 as stated fails: in a cycle with a changed snapshot and a delivered notification
  in which the state file cannot be written, the file and the last known prices are
  the old ones afterwards.
\<close>

theorem delivered_change_counterexample:
  "check_prices decimal_lib (pages (cycle_with True False)) = Some new_prices \<and>
   prices_changed (as_json zero_prices) new_prices = Inr True \<and>
   send_price_update decimal_lib with_credentials (delivers (cycle_with True False)) ''hypio''
     ''0.44 ETH'' ''0.41 WETH'' (as_json zero_prices) [] = Inr (True, [update_text]) \<and>
   memory_file (run_cycle decimal_lib (cycle_with True False)
      (monitor_at with_credentials (Stored (as_json zero_prices)) (as_json zero_prices)))
     = Stored (as_json zero_prices) \<and>
   last_prices (run_cycle decimal_lib (cycle_with True False)
      (monitor_at with_credentials (Stored (as_json zero_prices)) (as_json zero_prices)))
     = as_json zero_prices \<and>
   as_json zero_prices \<noteq> as_json new_prices"
  by code_simp

section \<open>Missing credentials\<close>

lemma send_without_credentials:
  "credentials_missing env \<Longrightarrow>
   send_price_update L env ok coll fl bo old ob = Inl ValueError"
  by (auto simp add: credentials_missing_def send_price_update_def telegram_service_init_def
        exn_bind_def split: option.splits)

lemma run_cycle_without_credentials:
  "credentials_missing (process_env m) \<Longrightarrow> run_cycle L io m = m\<lparr>fetches := fetches m + 1\<rparr>"
  by (simp add: run_cycle_def Let_def send_without_credentials
        split: option.splits sum.splits bool.splits)

lemma run_cycle_check_interval:
  "check_interval (run_cycle L io m) = check_interval m"
  by (simp add: run_cycle_def Let_def split: option.splits sum.splits bool.splits prod.splits)

text \<open>
  In every iteration the loop is left exactly when the sleep raises: the sleep in the
  \<open>try\<close> block only decides which of the two calls is the one that returns.
\<close>

lemma run_iteration_sleep:
  "run_iteration L io m = (time_sleep L (check_interval m), run_cycle L io m)"
  by (simp add: run_iteration_def Let_def run_cycle_check_interval)

lemma run_sleep_raises:
  "time_sleep L (check_interval m) = Some e \<Longrightarrow>
   run L (io # ios) m = (Some e, run_cycle L io m)"
  by (simp add: run_iteration_sleep)

lemma run_without_credentials:
  "credentials_missing (process_env m) \<Longrightarrow> time_sleep L (check_interval m) = None \<Longrightarrow>
   run L ios m = (None, m\<lparr>fetches := fetches m + length ios\<rparr>)"
proof (induction ios arbitrary: m)
  case Nil
  then show ?case by simp
next
  case (Cons io ios)
  let ?m = "m\<lparr>fetches := fetches m + 1\<rparr>"
  have step: "run_iteration L io m = (None, ?m)"
    using Cons.prems by (simp add: run_iteration_sleep run_cycle_without_credentials)
  have "credentials_missing (process_env ?m)" and "time_sleep L (check_interval ?m) = None"
    using Cons.prems by simp_all
  then have "run L ios ?m = (None, ?m\<lparr>fetches := fetches ?m + length ios\<rparr>)"
    by (rule Cons.IH)
  with step show ?case by simp
qed

lemma startup_ignores_credentials:
  "startup L env disk =
     map_sum id (\<lambda>m. m\<lparr>process_env := env\<rparr>)
       (startup L (env\<lparr>TELEGRAM_BOT_TOKEN := t, TELEGRAM_CHANNEL_ID := c\<rparr>) disk)"
  by (simp add: startup_def load_config_def exn_bind_def Let_def
        split: option.splits sum.splits prod.splits)

text \<open>
  C1, as the code has it.  When a credential is missing, the construction of the
  Telegram service raises \<open>ValueError\<close>.  The start of the process does not read the
  credentials: it succeeds or fails exactly as it does with any credentials \<open>t\<close> and
  \<open>c\<close> in place.  The service is constructed inside a cycle, after the fetch, and the
  error is caught there: as long as the sleep between cycles returns, the loop goes
  on over any number of cycles, each cycle fetches, and nothing is sent or saved and
  the last known prices stay.
\<close>

theorem missing_credentials_caught_in_cycle:
  assumes "credentials_missing env"
  shows "telegram_service_init env = Inl ValueError \<and>
         startup L env disk =
           map_sum id (\<lambda>m. m\<lparr>process_env := env\<rparr>)
             (startup L (env\<lparr>TELEGRAM_BOT_TOKEN := t, TELEGRAM_CHANNEL_ID := c\<rparr>) disk) \<and>
         (process_env m = env \<and> time_sleep L (check_interval m) = None \<longrightarrow>
            run L ios m = (None, m\<lparr>fetches := fetches m + length ios\<rparr>))"
proof -
  have a: "telegram_service_init env = Inl ValueError"
    using assms
    by (auto simp add: credentials_missing_def telegram_service_init_def split: option.splits)
  have b: "startup L env disk =
           map_sum id (\<lambda>m. m\<lparr>process_env := env\<rparr>)
             (startup L (env\<lparr>TELEGRAM_BOT_TOKEN := t, TELEGRAM_CHANNEL_ID := c\<rparr>) disk)"
    by (rule startup_ignores_credentials)
  have c: "process_env m = env \<and> time_sleep L (check_interval m) = None \<longrightarrow>
           run L ios m = (None, m\<lparr>fetches := fetches m + length ios\<rparr>)"
    using assms run_without_credentials by blast
  from a b c show ?thesis by blast
qed

theorem missing_credentials_caught_in_cycle_witness:
  "credentials_missing no_credentials \<and>
   telegram_service_init no_credentials = Inl ValueError \<and>
   startup decimal_lib no_credentials Missing =
     Inr (monitor_at no_credentials Missing (as_json zero_prices)) \<and>
   time_sleep decimal_lib 300 = None \<and>
   run decimal_lib [cycle_with True True, cycle_with True True]
       (monitor_at no_credentials Missing (as_json zero_prices)) =
     (None, (monitor_at no_credentials Missing (as_json zero_prices))\<lparr>fetches := 2\<rparr>)"
proof -
  have h: "credentials_missing no_credentials" by code_simp
  have s: "startup decimal_lib no_credentials Missing =
     Inr (monitor_at no_credentials Missing (as_json zero_prices))" by code_simp
  have p: "process_env (monitor_at no_credentials Missing (as_json zero_prices)) = no_credentials"
    by (simp add: monitor_at_def)
  have f: "fetches (monitor_at no_credentials Missing (as_json zero_prices)) = 0"
    by (simp add: monitor_at_def)
  have i: "check_interval (monitor_at no_credentials Missing (as_json zero_prices)) = 300"
    by (simp add: monitor_at_def)
  have z: "time_sleep decimal_lib 300 = None"
    by (simp add: decimal_lib_def dec_sleep_def)
  from missing_credentials_caught_in_cycle [OF h,
      where L = decimal_lib and disk = Missing and t = None and c = None
        and m = "monitor_at no_credentials Missing (as_json zero_prices)"
        and ios = "[cycle_with True True, cycle_with True True]"] p f i z s h
  show ?thesis by simp
qed

text \<open>
  C1 as stated fails: with both credentials unset and no state file, the process
  starts, and its first cycle runs a fetch and ends with the loop still running.
\<close>

theorem missing_credentials_counterexample:
  "credentials_missing no_credentials \<and>
   main decimal_lib no_credentials Missing [cycle_with True True] =
     Inr (None, (monitor_at no_credentials Missing (as_json zero_prices))\<lparr>fetches := 1\<rparr>)"
  by code_simp

text \<open>
  With an interval of minus five seconds the sleep at the end of the first iteration
  raises and \<open>run\<close> ends there, after one fetch, whatever the later cycles would be.
\<close>

lemma negative_interval_ends_run:
  "main decimal_lib negative_interval Missing [cycle_with True True, cycle_with True True] =
     Inr (Some ValueError,
          (monitor_at negative_interval Missing (as_json zero_prices))
            \<lparr>check_interval := - 5, fetches := 1\<rparr>)"
  by code_simp

end
